theory Spec2Isabelle
  imports Main "HOL-Library.Sublist"
begin

section \<open>The patrol-robot dashboard: login page and main page scripts\<close>

text \<open>
  The repository is two browser scripts, \<^verbatim>\<open>static/js/auth.js\<close> (the click handler
  of the login button) and \<^verbatim>\<open>static/js/main.js\<close> (the map, the status poll, the two
  command buttons and logout). Everything they do is an effect on the browser: the
  \<^verbatim>\<open>localStorage\<close>, the text of three page elements, the Leaflet map and its layers,
  the requests handed to \<^verbatim>\<open>fetch\<close>, and assignments to \<^verbatim>\<open>window.location.href\<close>.
  The model passes that state explicitly. An \<^verbatim>\<open>async\<close> function is cut at its
  \<^verbatim>\<open>await\<close>s: the part that runs when the function is called, and the part that runs
  when the awaited promises have settled, which takes what the network delivered as an
  argument. Handlers run to completion on the page's single thread, so an execution of
  the page is a sequence of such parts.
\<close>

subsection \<open>JavaScript values\<close>

text \<open>
  What \<^verbatim>\<open>res.json()\<close> can deliver, and \<^verbatim>\<open>undefined\<close> for a property that is not
  there. Numbers are IEEE doubles in the browser; the scripts never compute with them,
  so their type \<open>'n\<close> is left open and the host supplies the conversion to a string.
  An object is the list of its own properties.
\<close>

datatype 'n jsval =
    JUndefined
  | JNull
  | JBool bool
  | JNum 'n
  | JStr string
  | JArr "'n jsval list"
  | JObj "(string \<times> 'n jsval) list"

datatype js_error = NetworkError | SyntaxError | TypeError | LeafletError

text \<open>
  What the scripts take from their host, the browser and the Leaflet library, neither of
  which is part of the repository: the conversion of a number to a string, and whether
  \<^verbatim>\<open>L.marker([lat, lon])\<close> accepts a pair of coordinates or throws.
\<close>

record 'n host =
  number_to_string :: "'n \<Rightarrow> string"
  latlng_ok :: "'n jsval \<Rightarrow> 'n jsval \<Rightarrow> bool"

fun join_comma :: "string list \<Rightarrow> string" where
  "join_comma [] = []"
| "join_comma [x] = x"
| "join_comma (x # y # ys) = x @ '','' @ join_comma (y # ys)"

text \<open>
  \<^verbatim>\<open>String(v)\<close>, the conversion a template literal \<^verbatim>\<open>`${v}`\<close> applies: an array is
  its elements joined by commas, with \<^verbatim>\<open>null\<close> and \<^verbatim>\<open>undefined\<close> elements empty.
\<close>

fun to_string :: "'n host \<Rightarrow> 'n jsval \<Rightarrow> string" where
  "to_string H JUndefined = ''undefined''"
| "to_string H JNull = ''null''"
| "to_string H (JBool b) = (if b then ''true'' else ''false'')"
| "to_string H (JNum n) = number_to_string H n"
| "to_string H (JStr s) = s"
| "to_string H (JArr xs) =
     join_comma (map (\<lambda>x. case x of JUndefined \<Rightarrow> [] | JNull \<Rightarrow> [] | _ \<Rightarrow> to_string H x) xs)"
| "to_string H (JObj kvs) = ''[object Object]''"

text \<open>
  \<^verbatim>\<open>element.innerText = v\<close>: the attribute converts its argument like \<^verbatim>\<open>String(v)\<close>,
  except that \<^verbatim>\<open>null\<close> becomes the empty string.
\<close>

definition inner_text :: "'n host \<Rightarrow> 'n jsval \<Rightarrow> string" where
  "inner_text H v = (case v of JNull \<Rightarrow> [] | _ \<Rightarrow> to_string H v)"

text \<open>
  \<^verbatim>\<open>data.k\<close> for the property names the scripts read (\<^verbatim>\<open>battery\<close>, \<^verbatim>\<open>lat\<close>,
  \<^verbatim>\<open>lon\<close>, \<^verbatim>\<open>access_token\<close>), none of which a prototype defines: reading a property
  of \<^verbatim>\<open>null\<close> or \<^verbatim>\<open>undefined\<close> throws a TypeError, an object gives its own property or
  \<^verbatim>\<open>undefined\<close>, and every other value gives \<^verbatim>\<open>undefined\<close>.
\<close>

definition get_prop :: "'n jsval \<Rightarrow> string \<Rightarrow> js_error + 'n jsval" where
  "get_prop d k =
     (case d of
        JUndefined \<Rightarrow> Inl TypeError
      | JNull \<Rightarrow> Inl TypeError
      | JObj kvs \<Rightarrow> (case map_of kvs k of None \<Rightarrow> Inr JUndefined | Some v \<Rightarrow> Inr v)
      | _ \<Rightarrow> Inr JUndefined)"

subsection \<open>Requests and responses\<close>

record request =
  req_method :: string
  url :: string
  headers :: "(string \<times> string) list"
  form :: "(string \<times> string) list option"

text \<open>
  A response is its status and what \<^verbatim>\<open>res.json()\<close> makes of its body: \<open>None\<close> when the
  body is not JSON and the promise rejects with a SyntaxError. The promise of \<^verbatim>\<open>fetch\<close>
  itself is rejected when the request fails on the network, and fulfilled with the
  response otherwise, whatever its status.
\<close>

record 'n response =
  status :: nat
  json :: "'n jsval option"

datatype 'n fetch_result = Rejected | Fulfilled "'n response"

definition ok :: "'n response \<Rightarrow> bool" where
  "ok res = (200 \<le> status res \<and> status res \<le> 299)"

subsection \<open>The browser state\<close>

datatype 'n layer = TileLayer string | Marker "'n jsval" "'n jsval"

text \<open>
  \<open>localStorage\<close> is the storage shared by the two pages; \<open>battery\<close>, \<open>position\<close> and
  \<open>message\<close> are the \<^verbatim>\<open>innerText\<close> of the elements with these ids; \<open>marker\<close> is the
  variable of \<^verbatim>\<open>main.js\<close>, \<open>None\<close> for \<^verbatim>\<open>null\<close> and otherwise the identity of a layer
  object; \<open>layers\<close> are the layers on the map with their identities and \<open>next_id\<close> is
  the first identity not yet given to an object; \<open>requests\<close> are the calls of
  \<^verbatim>\<open>fetch\<close> so far and \<open>navigations\<close> the assignments to \<^verbatim>\<open>window.location.href\<close>,
  both in order.
\<close>

record 'n browser =
  localStorage :: "string \<Rightarrow> string option"
  battery :: string
  position :: string
  message :: string
  marker :: "nat option"
  layers :: "(nat \<times> 'n layer) list"
  next_id :: nat
  requests :: "request list"
  navigations :: "string list"

definition getItem :: "'n browser \<Rightarrow> string \<Rightarrow> 'n jsval" where
  "getItem s k = (case localStorage s k of None \<Rightarrow> JNull | Some v \<Rightarrow> JStr v)"

definition setItem :: "string \<Rightarrow> string \<Rightarrow> 'n browser \<Rightarrow> 'n browser" where
  "setItem k v s = s\<lparr>localStorage := (localStorage s)(k \<mapsto> v)\<rparr>"

definition removeItem :: "string \<Rightarrow> 'n browser \<Rightarrow> 'n browser" where
  "removeItem k s = s\<lparr>localStorage := (localStorage s)(k := None)\<rparr>"

text \<open>
  A call of \<^verbatim>\<open>fetch\<close> issues the request it is given; the header values the scripts
  build from the stored token are taken to be values \<^verbatim>\<open>fetch\<close> accepts. The storage
  operations always succeed.
\<close>

definition fetch :: "request \<Rightarrow> 'n browser \<Rightarrow> 'n browser" where
  "fetch r s = s\<lparr>requests := requests s @ [r]\<rparr>"

definition navigate :: "string \<Rightarrow> 'n browser \<Rightarrow> 'n browser" where
  "navigate target s = s\<lparr>navigations := navigations s @ [target]\<rparr>"

text \<open>
  \<^verbatim>\<open>map.removeLayer(m)\<close> takes the layer object \<open>m\<close> off the map and does nothing when
  it is not on it; \<^verbatim>\<open>L.marker([lat, lon]).addTo(map)\<close> throws when the library rejects
  the coordinates, and otherwise puts a new layer object on the map and returns it.
\<close>

definition removeLayer :: "nat \<Rightarrow> 'n browser \<Rightarrow> 'n browser" where
  "removeLayer m s = s\<lparr>layers := filter (\<lambda>(i, l). i \<noteq> m) (layers s)\<rparr>"

definition add_marker :: "'n host \<Rightarrow> 'n jsval \<Rightarrow> 'n jsval \<Rightarrow> 'n browser \<Rightarrow> js_error option \<times> 'n browser" where
  "add_marker H lat lon s =
     (if latlng_ok H lat lon
      then (None, s\<lparr>marker := Some (next_id s),
                     layers := layers s @ [(next_id s, Marker lat lon)],
                     next_id := Suc (next_id s)\<rparr>)
      else (Some LeafletError, s))"

fun is_marker :: "'n layer \<Rightarrow> bool" where
  "is_marker (Marker lat lon) = True"
| "is_marker (TileLayer u) = False"

definition markers_on_map :: "'n browser \<Rightarrow> 'n layer list" where
  "markers_on_map s = filter is_marker (map snd (layers s))"

subsection \<open>auth.js\<close>

definition API_URL :: string where
  "API_URL = ''http://13.125.247.94:8000''"

text \<open>The string literal of line 19, as the bytes of its UTF-8 encoding in the file.\<close>

definition login_failed :: string where
  "login_failed =
     [CHR 0xEB, CHR 0xA1, CHR 0x9C, CHR 0xEA, CHR 0xB7, CHR 0xB8, CHR 0xEC, CHR 0x9D, CHR 0xB8,
      CHR 0x20, CHR 0xEC, CHR 0x8B, CHR 0xA4, CHR 0xED, CHR 0x8C, CHR 0xA8, CHR 0x21]"

text \<open>
  The click handler up to its first \<^verbatim>\<open>await\<close>: the entries of the login form are sent
  URL-encoded as the body of a POST.
\<close>

definition login_click :: "(string \<times> string) list \<Rightarrow> 'n browser \<Rightarrow> 'n browser" where
  "login_click formData s =
     fetch \<lparr>req_method = ''POST'', url = API_URL @ ''/login'', headers = [], form = Some formData\<rparr> s"

text \<open>
  The rest of the handler, from the moment the promise of \<^verbatim>\<open>fetch\<close> settles. The body
  is read only when \<^verbatim>\<open>res.ok\<close>; \<^verbatim>\<open>setItem\<close> stores its second argument as a string.
\<close>

definition login_settled :: "'n host \<Rightarrow> 'n fetch_result \<Rightarrow> 'n browser \<Rightarrow> js_error option \<times> 'n browser" where
  "login_settled H fr s =
     (case fr of
        Rejected \<Rightarrow> (Some NetworkError, s)
      | Fulfilled res \<Rightarrow>
          if ok res then
            (case json res of
               None \<Rightarrow> (Some SyntaxError, s)
             | Some data \<Rightarrow>
                 (case get_prop data ''access_token'' of
                    Inl e \<Rightarrow> (Some e, s)
                  | Inr tok \<Rightarrow>
                      (None, navigate ''main.html'' (setItem ''token'' (to_string H tok) s))))
          else (None, s\<lparr>message := login_failed\<rparr>))"

subsection \<open>main.js\<close>

text \<open>
  Lines 8 to 11: the token is read and the request is issued, with the default method
  of \<^verbatim>\<open>fetch\<close>. The template literal turns a missing token, \<^verbatim>\<open>null\<close>, into the text
  \<^verbatim>\<open>null\<close>.
\<close>

definition bearer :: "'n host \<Rightarrow> 'n browser \<Rightarrow> string" where
  "bearer H s = ''Bearer '' @ to_string H (getItem s ''token'')"

definition loadRobotStatus_call :: "'n host \<Rightarrow> 'n browser \<Rightarrow> 'n browser" where
  "loadRobotStatus_call H s =
     fetch \<lparr>req_method = ''GET'', url = ''http://localhost:8000/robot/status'',
            headers = [(''Authorization'', bearer H s)], form = None\<rparr> s"

text \<open>Line 17: \<^verbatim>\<open>if (marker) map.removeLayer(marker)\<close>.\<close>

definition clear_marker :: "'n browser \<Rightarrow> 'n browser" where
  "clear_marker s = (case marker s of None \<Rightarrow> s | Some m \<Rightarrow> removeLayer m s)"

text \<open>
  Lines 12 to 18, from the moment the promise of \<^verbatim>\<open>fetch\<close> settles: the status of the
  response is not looked at, the body is parsed, the two texts are written, the marker
  the variable holds is taken off the map and a new one is made. An exception leaves
  what was done before it in place.
\<close>

definition loadRobotStatus_settled :: "'n host \<Rightarrow> 'n fetch_result \<Rightarrow> 'n browser \<Rightarrow> js_error option \<times> 'n browser" where
  "loadRobotStatus_settled H fr s =
     (case fr of
        Rejected \<Rightarrow> (Some NetworkError, s)
      | Fulfilled res \<Rightarrow>
          (case json res of
             None \<Rightarrow> (Some SyntaxError, s)
           | Some data \<Rightarrow>
               (case get_prop data ''battery'' of
                  Inl e \<Rightarrow> (Some e, s)
                | Inr b \<Rightarrow>
                    let s1 = s\<lparr>battery := inner_text H b\<rparr> in
                    (case get_prop data ''lat'' of
                       Inl e \<Rightarrow> (Some e, s1)
                     | Inr lat \<Rightarrow>
                         (case get_prop data ''lon'' of
                            Inl e \<Rightarrow> (Some e, s1)
                          | Inr lon \<Rightarrow>
                              let s2 = s1\<lparr>position := to_string H lat @ '', '' @ to_string H lon\<rparr>;
                                  s3 = clear_marker s2
                              in add_marker H lat lon s3)))))"

text \<open>A poll whose request is answered before anything else happens on the page.\<close>

definition loadRobotStatus :: "'n host \<Rightarrow> 'n fetch_result \<Rightarrow> 'n browser \<Rightarrow> js_error option \<times> 'n browser" where
  "loadRobotStatus H fr s = loadRobotStatus_settled H fr (loadRobotStatus_call H s)"

definition startPatrol :: "'n host \<Rightarrow> 'n browser \<Rightarrow> 'n browser" where
  "startPatrol H s =
     fetch \<lparr>req_method = ''POST'', url = ''http://localhost:8000/robot/start'',
            headers = [(''Authorization'', bearer H s)], form = None\<rparr> s"

definition returnBase :: "'n host \<Rightarrow> 'n browser \<Rightarrow> 'n browser" where
  "returnBase H s =
     fetch \<lparr>req_method = ''POST'', url = ''http://localhost:8000/robot/return'',
            headers = [(''Authorization'', bearer H s)], form = None\<rparr> s"

definition logout :: "'n browser \<Rightarrow> 'n browser" where
  "logout s = navigate ''login.html'' (removeItem ''token'' s)"

text \<open>
  Loading the main page runs the script top to bottom: the map with its tile layer,
  \<^verbatim>\<open>marker = null\<close>, the timer, and the first call of \<^verbatim>\<open>loadRobotStatus\<close>. The
  storage and the texts the page starts with are given.
\<close>

definition main_page :: "'n host \<Rightarrow> (string \<Rightarrow> string option) \<Rightarrow> string \<Rightarrow> string \<Rightarrow> 'n browser" where
  "main_page H stored b p =
     loadRobotStatus_call H
       \<lparr>localStorage = stored, battery = b, position = p, message = [], marker = None,
        layers = [(0, TileLayer ''https://{s}.tile.openstreetmap.org/{z}/{x}/{y}.png'')],
        next_id = 1, requests = [], navigations = []\<rparr>"

text \<open>
  What can happen on the main page after it has loaded: the timer fires and a poll is
  issued, the promise of an issued poll settles, or one of the three buttons is
  clicked. An exception in a handler is an unhandled rejection, which the browser
  reports on its console and the page does not see.
\<close>

datatype 'n event =
    Tick
  | PollSettled "'n fetch_result"
  | StartClicked
  | ReturnClicked
  | LogoutClicked

fun fire :: "'n host \<Rightarrow> 'n browser \<Rightarrow> 'n event \<Rightarrow> 'n browser" where
  "fire H s Tick = loadRobotStatus_call H s"
| "fire H s (PollSettled fr) = snd (loadRobotStatus_settled H fr s)"
| "fire H s StartClicked = startPatrol H s"
| "fire H s ReturnClicked = returnBase H s"
| "fire H s LogoutClicked = logout s"

definition run :: "'n host \<Rightarrow> 'n browser \<Rightarrow> 'n event list \<Rightarrow> 'n browser" where
  "run H s es = foldl (fire H) s es"

subsection \<open>The invariant of the map\<close>

text \<open>
  At most one marker is on the map, and a marker on the map is the layer object the
  variable \<open>marker\<close> holds.
\<close>

definition one_marker :: "'n browser \<Rightarrow> bool" where
  "one_marker s =
     (length (markers_on_map s) \<le> 1
      \<and> (\<forall>(i, l) \<in> set (layers s). is_marker l \<longrightarrow> marker s = Some i))"

subsection \<open>A host to run the scripts on\<close>

text \<open>
  Numbers are the naturals, written in decimal as the browser writes an integer, and
  the map library takes a pair of numbers as coordinates and nothing else.
\<close>

function show_nat :: "nat \<Rightarrow> string" where
  "show_nat n =
     (if n < 10 then [''0123456789'' ! n]
      else show_nat (n div 10) @ [''0123456789'' ! (n mod 10)])"
  by pat_completeness auto
termination
  by (relation "measure id") auto

declare show_nat.simps [simp del]

definition example_host :: "nat host" where
  "example_host =
     \<lparr>number_to_string = show_nat,
      latlng_ok = (\<lambda>lat lon. case lat of JNum x \<Rightarrow> (case lon of JNum y \<Rightarrow> True | _ \<Rightarrow> False) | _ \<Rightarrow> False)\<rparr>"

text \<open>
  The login page and the main page as they load, with a token in the storage, and two
  answers of the status endpoint: a status, and the refusal of a request whose token
  the server does not accept.
\<close>

definition login_page :: "(string \<Rightarrow> string option) \<Rightarrow> 'n browser" where
  "login_page stored =
     \<lparr>localStorage = stored, battery = [], position = [], message = [], marker = None,
      layers = [], next_id = 0, requests = [], navigations = []\<rparr>"

definition example_page :: "nat browser" where
  "example_page = main_page example_host (Map.empty(''token'' \<mapsto> ''T1'')) [] []"

definition status_response :: "nat \<Rightarrow> nat \<Rightarrow> nat \<Rightarrow> nat response" where
  "status_response b la lo =
     \<lparr>status = 200,
      json = Some (JObj [(''battery'', JNum b), (''lat'', JNum la), (''lon'', JNum lo)])\<rparr>"

definition unauthorized_response :: "'n response" where
  "unauthorized_response =
     \<lparr>status = 401, json = Some (JObj [(''detail'', JStr ''Not authenticated'')])\<rparr>"

section \<open>Properties\<close>

subsection \<open>What a settled poll does\<close>

lemma settled_cases:
  "loadRobotStatus_settled H fr s = (e, s') \<Longrightarrow>
   (e \<noteq> None \<and> s' = s)
   \<or> (\<exists>res d b la lo. fr = Fulfilled res \<and> json res = Some d \<and> get_prop d ''battery'' = Inr b
        \<and> get_prop d ''lat'' = Inr la \<and> get_prop d ''lon'' = Inr lo
        \<and> add_marker H la lo
             (clear_marker (s\<lparr>battery := inner_text H b,
                              position := to_string H la @ '', '' @ to_string H lo\<rparr>)) = (e, s'))"
  unfolding loadRobotStatus_settled_def
  by (auto simp: Let_def get_prop_def split: fetch_result.splits option.splits sum.splits jsval.splits)


lemma markers_on_map_frame [simp]:
  "markers_on_map (s\<lparr>battery := b\<rparr>) = markers_on_map s"
  "markers_on_map (s\<lparr>position := p\<rparr>) = markers_on_map s"
  "markers_on_map (s\<lparr>requests := r\<rparr>) = markers_on_map s"
  "markers_on_map (s\<lparr>navigations := n\<rparr>) = markers_on_map s"
  "markers_on_map (s\<lparr>localStorage := ls\<rparr>) = markers_on_map s"
  by (simp_all add: markers_on_map_def)

lemma one_marker_frame [simp]:
  "one_marker (s\<lparr>battery := b\<rparr>) = one_marker s"
  "one_marker (s\<lparr>position := p\<rparr>) = one_marker s"
  "one_marker (s\<lparr>requests := r\<rparr>) = one_marker s"
  "one_marker (s\<lparr>navigations := n\<rparr>) = one_marker s"
  "one_marker (s\<lparr>localStorage := ls\<rparr>) = one_marker s"
  by (simp_all add: one_marker_def markers_on_map_def)

lemma clear_marker_fields [simp]:
  "battery (clear_marker s) = battery s"
  "position (clear_marker s) = position s"
  "message (clear_marker s) = message s"
  "localStorage (clear_marker s) = localStorage s"
  "requests (clear_marker s) = requests s"
  "navigations (clear_marker s) = navigations s"
  "marker (clear_marker s) = marker s"
  "next_id (clear_marker s) = next_id s"
  by (simp_all add: clear_marker_def removeLayer_def split: option.splits)


lemma add_marker_fields:
  "add_marker H la lo s = (e, s') \<Longrightarrow>
   battery s' = battery s \<and> position s' = position s \<and> message s' = message s
   \<and> localStorage s' = localStorage s \<and> requests s' = requests s
   \<and> navigations s' = navigations s"
  by (auto simp: add_marker_def split: if_splits)








lemma settled_frame:
  assumes "loadRobotStatus_settled H fr s = (e, s')"
  shows "localStorage s' = localStorage s \<and> requests s' = requests s
         \<and> navigations s' = navigations s \<and> message s' = message s"
  using settled_cases [OF assms]
proof (elim disjE exE conjE)
  assume "s' = s" then show ?thesis by simp
next
  fix res d b la lo
  assume "add_marker H la lo
             (clear_marker (s\<lparr>battery := inner_text H b,
                              position := to_string H la @ '', '' @ to_string H lo\<rparr>)) = (e, s')"
  from add_marker_fields [OF this] show ?thesis by simp
qed

lemma settled_storage:
  "localStorage (snd (loadRobotStatus_settled H fr s)) = localStorage s"
  "requests (snd (loadRobotStatus_settled H fr s)) = requests s"
  "navigations (snd (loadRobotStatus_settled H fr s)) = navigations s"
  using settled_frame [of H fr s "fst (loadRobotStatus_settled H fr s)" "snd (loadRobotStatus_settled H fr s)"]
  by simp_all


lemma call_frame [simp]:
  "one_marker (loadRobotStatus_call H s) = one_marker s"
  "localStorage (loadRobotStatus_call H s) = localStorage s"
  "battery (loadRobotStatus_call H s) = battery s"
  "position (loadRobotStatus_call H s) = position s"
  "requests (loadRobotStatus_call H s) = requests s @
     [\<lparr>req_method = ''GET'', url = ''http://localhost:8000/robot/status'',
       headers = [(''Authorization'', bearer H s)], form = None\<rparr>]"
  by (simp_all add: loadRobotStatus_call_def fetch_def)

lemma settled_outcome:
  "fst (loadRobotStatus_settled H fr s) = fst (loadRobotStatus_settled H fr t)"
  by (simp add: loadRobotStatus_settled_def add_marker_def Let_def
        split: fetch_result.splits option.splits sum.splits)



lemma bearer_token:
  "bearer H s = ''Bearer '' @ (case localStorage s ''token'' of None \<Rightarrow> ''null'' | Some t \<Rightarrow> t)"
  by (simp add: bearer_def getItem_def split: option.splits)

lemmas script_defs =
  loadRobotStatus_def loadRobotStatus_call_def loadRobotStatus_settled_def add_marker_def
  clear_marker_def removeLayer_def fetch_def bearer_def getItem_def get_prop_def inner_text_def
  main_page_def markers_on_map_def run_def startPatrol_def returnBase_def logout_def
  navigate_def removeItem_def setItem_def login_settled_def login_click_def ok_def

lemmas example_defs =
  example_host_def example_page_def status_response_def unauthorized_response_def
  login_page_def show_nat.simps

lemma status_response_succeeds:
  "fst (loadRobotStatus_settled example_host (Fulfilled (status_response b la lo)) s) = None"
  by (simp add: loadRobotStatus_settled_def add_marker_def get_prop_def status_response_def
        example_host_def Let_def)

lemma settled_early_failure:
  "loadRobotStatus_settled H Rejected s = (Some NetworkError, s)"
  "json res = None \<Longrightarrow> loadRobotStatus_settled H (Fulfilled res) s = (Some SyntaxError, s)"
  "json res = Some JNull \<Longrightarrow> loadRobotStatus_settled H (Fulfilled res) s = (Some TypeError, s)"
  by (simp_all add: loadRobotStatus_settled_def get_prop_def)

lemma refused_poll_texts:
  "battery (snd (loadRobotStatus_settled H (Fulfilled unauthorized_response) s)) = ''undefined''"
  "position (snd (loadRobotStatus_settled H (Fulfilled unauthorized_response) s))
     = ''undefined, undefined''"
  by (simp_all add: loadRobotStatus_settled_def unauthorized_response_def get_prop_def
        inner_text_def add_marker_def Let_def)

subsection \<open>A poll that fails\<close>

text \<open>
  C1. A poll that fails is to leave the battery text, the position text and the marker
  as they were. A poll that fails on the network, on a body that is not JSON or on the
  body \<^verbatim>\<open>null\<close> does (\<open>settled_early_failure\<close>). But \<^verbatim>\<open>loadRobotStatus\<close> does not
  look at the status of the response, as the login handler does with \<^verbatim>\<open>res.ok\<close>. On
  the example page, after a poll that showed a battery of 87 at 37, 126, a poll is
  answered with status 401 and the body \<^verbatim>\<open>{"detail": "Not authenticated"}\<close>: both
  texts are overwritten with \<^verbatim>\<open>undefined\<close> and the marker is taken off the map
  before the construction of the new marker throws. The texts are overwritten on
  every host and in every state (\<open>refused_poll_texts\<close>).
\<close>

theorem failed_poll_overwrites_display:
  "battery (snd (loadRobotStatus example_host (Fulfilled (status_response 87 37 126)) example_page)) = ''87''
   \<and> position (snd (loadRobotStatus example_host (Fulfilled (status_response 87 37 126)) example_page)) = ''37, 126''
   \<and> markers_on_map (snd (loadRobotStatus example_host (Fulfilled (status_response 87 37 126)) example_page))
       = [Marker (JNum 37) (JNum 126)]
   \<and> fst (loadRobotStatus example_host (Fulfilled unauthorized_response)
        (snd (loadRobotStatus example_host (Fulfilled (status_response 87 37 126)) example_page)))
       = Some LeafletError
   \<and> battery (snd (loadRobotStatus example_host (Fulfilled unauthorized_response)
        (snd (loadRobotStatus example_host (Fulfilled (status_response 87 37 126)) example_page))))
       = ''undefined''
   \<and> position (snd (loadRobotStatus example_host (Fulfilled unauthorized_response)
        (snd (loadRobotStatus example_host (Fulfilled (status_response 87 37 126)) example_page))))
       = ''undefined, undefined''
   \<and> markers_on_map (snd (loadRobotStatus example_host (Fulfilled unauthorized_response)
        (snd (loadRobotStatus example_host (Fulfilled (status_response 87 37 126)) example_page))))
       = []"
  by (simp add: script_defs example_defs)

subsection \<open>The map marker\<close>



subsection \<open>Polls that overtake each other\<close>



subsection \<open>Login\<close>

text \<open>
  C3. When the server answers the login with status 200 and the body
  \<^verbatim>\<open>{access_token: "T1"}\<close>, the handler stores \<^verbatim>\<open>T1\<close> under the key \<^verbatim>\<open>token\<close> and
  navigates to the main view; when the answer is not a 2xx, status 401 for one, it shows
  the fixed failure text and changes nothing else, so nothing is stored.
\<close>

theorem login_outcomes:
  "login_settled H (Fulfilled \<lparr>status = 200, json = Some (JObj [(''access_token'', JStr ''T1'')])\<rparr>) s
     = (None, s\<lparr>localStorage := (localStorage s)(''token'' \<mapsto> ''T1''),
                 navigations := navigations s @ [''main.html'']\<rparr>)
   \<and> (\<not> ok res \<longrightarrow> login_settled H (Fulfilled res) s = (None, s\<lparr>message := login_failed\<rparr>))"
  by (simp add: login_settled_def ok_def get_prop_def navigate_def setItem_def)

text \<open>The refused login on a login page with an empty storage.\<close>

theorem login_outcomes_witness:
  "\<not> ok unauthorized_response
   \<and> login_settled example_host (Fulfilled unauthorized_response) (login_page Map.empty)
       = (None, (login_page Map.empty)\<lparr>message := login_failed\<rparr>)
   \<and> localStorage (snd (login_settled example_host (Fulfilled unauthorized_response) (login_page Map.empty)))
       ''token'' = None"
proof -
  have h: "\<not> ok unauthorized_response"
    by (simp add: ok_def unauthorized_response_def)
  from login_outcomes [of example_host "login_page Map.empty" unauthorized_response] h
  have "login_settled example_host (Fulfilled unauthorized_response) (login_page Map.empty)
       = (None, (login_page Map.empty)\<lparr>message := login_failed\<rparr>)"
    by blast
  with h show ?thesis
    by (simp add: login_page_def)
qed

subsection \<open>The command buttons\<close>


subsection \<open>The battery text\<close>

text \<open>
  C5. After a successful poll whose response has a number as \<^verbatim>\<open>battery\<close>, the battery
  text is the host's conversion of that number to a string, and nothing else is done
  to it.
\<close>

theorem battery_text_exact:
  assumes "loadRobotStatus H (Fulfilled res) s = (None, s')"
    and "json res = Some d" and "get_prop d ''battery'' = Inr (JNum n)"
  shows "battery s' = number_to_string H n"
  using assms
  by (auto simp: loadRobotStatus_def loadRobotStatus_settled_def Let_def inner_text_def
        split: sum.splits dest: add_marker_fields)

text \<open>A battery of 87 is shown as \<^verbatim>\<open>87\<close>.\<close>

theorem battery_text_exact_witness:
  "battery (snd (loadRobotStatus example_host (Fulfilled (status_response 87 37 126)) example_page))
     = ''87''"
proof -
  let ?s' = "snd (loadRobotStatus example_host (Fulfilled (status_response 87 37 126)) example_page)"
  let ?d = "JObj [(''battery'', JNum 87), (''lat'', JNum 37), (''lon'', JNum (126::nat))]"
  have h1: "loadRobotStatus example_host (Fulfilled (status_response 87 37 126)) example_page = (None, ?s')"
    by (simp add: prod_eq_iff loadRobotStatus_def status_response_succeeds)
  have h2: "json (status_response 87 37 126) = Some ?d"
    by (simp add: status_response_def)
  have h3: "get_prop ?d ''battery'' = Inr (JNum 87)"
    by (simp add: get_prop_def)
  from battery_text_exact [OF h1 h2 h3] show ?thesis
    by (simp add: example_host_def show_nat.simps)
qed

subsection \<open>A poll without a token\<close>

text \<open>
  C6. With no token stored, the poll still issues its GET, with the header
  \<^verbatim>\<open>Authorization: Bearer null\<close>, whatever the network then delivers; and whether
  the poll ends in an exception does not depend on what the storage holds, so a
  missing token is never the cause of one.
\<close>

theorem poll_without_token:
  assumes "localStorage s ''token'' = None"
  shows "requests (snd (loadRobotStatus H fr s)) = requests s @
           [\<lparr>req_method = ''GET'', url = ''http://localhost:8000/robot/status'',
             headers = [(''Authorization'', ''Bearer null'')], form = None\<rparr>]
         \<and> fst (loadRobotStatus H fr s) = fst (loadRobotStatus H fr (s\<lparr>localStorage := stored\<rparr>))"
proof
  show "requests (snd (loadRobotStatus H fr s)) = requests s @
           [\<lparr>req_method = ''GET'', url = ''http://localhost:8000/robot/status'',
             headers = [(''Authorization'', ''Bearer null'')], form = None\<rparr>]"
    using assms by (simp add: loadRobotStatus_def settled_storage bearer_token)
  show "fst (loadRobotStatus H fr s) = fst (loadRobotStatus H fr (s\<lparr>localStorage := stored\<rparr>))"
    unfolding loadRobotStatus_def by (rule settled_outcome)
qed

text \<open>A poll on a page with an empty storage, refused by the server.\<close>

theorem poll_without_token_witness:
  "localStorage (login_page Map.empty :: nat browser) ''token'' = None
   \<and> requests (snd (loadRobotStatus example_host (Fulfilled unauthorized_response) (login_page Map.empty)))
      = [\<lparr>req_method = ''GET'', url = ''http://localhost:8000/robot/status'',
           headers = [(''Authorization'', ''Bearer null'')], form = None\<rparr>]"
proof -
  have h: "localStorage (login_page Map.empty :: nat browser) ''token'' = None"
    by (simp add: login_page_def)
  from poll_without_token [OF h, of example_host "Fulfilled unauthorized_response" Map.empty] h
  show ?thesis
    by (simp add: login_page_def)
qed

subsection \<open>Who writes the storage\<close>

text \<open>
  C8. Issuing a poll, settling a poll, the two commands and the click on the login
  button leave the whole storage as it is. The settled login either leaves it as it is
  or, on a 2xx answer with a JSON body, sets the key \<^verbatim>\<open>token\<close> and no other; logout
  removes the key \<^verbatim>\<open>token\<close> and no other.
\<close>

theorem token_frame:
  "localStorage (loadRobotStatus_call H s) = localStorage s
   \<and> localStorage (snd (loadRobotStatus_settled H fr s)) = localStorage s
   \<and> localStorage (startPatrol H s) = localStorage s
   \<and> localStorage (returnBase H s) = localStorage s
   \<and> localStorage (login_click fd s) = localStorage s
   \<and> (localStorage (snd (login_settled H fr s)) = localStorage s
      \<or> (\<exists>res d tok. fr = Fulfilled res \<and> ok res \<and> json res = Some d
            \<and> get_prop d ''access_token'' = Inr tok
            \<and> localStorage (snd (login_settled H fr s)) = (localStorage s)(''token'' \<mapsto> to_string H tok)))
   \<and> localStorage (logout s) = (localStorage s)(''token'' := None)"
proof -
  have "localStorage (snd (login_settled H fr s)) = localStorage s
      \<or> (\<exists>res d tok. fr = Fulfilled res \<and> ok res \<and> json res = Some d
            \<and> get_prop d ''access_token'' = Inr tok
            \<and> localStorage (snd (login_settled H fr s)) = (localStorage s)(''token'' \<mapsto> to_string H tok))"
    by (auto simp: login_settled_def navigate_def setItem_def
          split: fetch_result.splits option.splits sum.splits)
  then show ?thesis
    by (simp add: settled_storage startPatrol_def returnBase_def login_click_def logout_def
          fetch_def navigate_def removeItem_def)
qed

subsection \<open>The hosts the requests go to\<close>

lemma fire_requests:
  "set (requests (fire H s ev)) \<subseteq> set (requests s) \<union>
     {r. url r \<in> {''http://localhost:8000/robot/status'', ''http://localhost:8000/robot/start'',
                   ''http://localhost:8000/robot/return''}}"
  by (cases ev)
     (auto simp: settled_storage startPatrol_def returnBase_def logout_def loadRobotStatus_call_def
        fetch_def navigate_def removeItem_def)

lemma run_requests:
  "set (requests (run H s es)) \<subseteq> set (requests s) \<union>
     {r. url r \<in> {''http://localhost:8000/robot/status'', ''http://localhost:8000/robot/start'',
                   ''http://localhost:8000/robot/return''}}"
  unfolding run_def
proof (induction es arbitrary: s)
  case Nil
  show ?case by simp
next
  case (Cons ev es)
  from Cons.IH [of "fire H s ev"] fire_requests [of H s ev] show ?case by auto
qed

text \<open>
  C9. Every request the main page issues, in any execution, goes to
  \<^verbatim>\<open>http://localhost:8000/\<close> and not to the address of the login server; the login
  request goes to \<^verbatim>\<open>http://13.125.247.94:8000/login\<close>. The bearer token is sent to a
  host other than the one that issued it.
\<close>

theorem request_hosts:
  "(\<forall>r \<in> set (requests (run H (main_page H stored b p) es)).
      prefix ''http://localhost:8000/'' (url r) \<and> \<not> prefix API_URL (url r))
   \<and> url (last (requests (login_click fd s))) = API_URL @ ''/login''
   \<and> API_URL = ''http://13.125.247.94:8000''"
proof -
  have "set (requests (main_page H stored b p)) \<subseteq>
     {r. url r \<in> {''http://localhost:8000/robot/status'', ''http://localhost:8000/robot/start'',
                   ''http://localhost:8000/robot/return''}}"
    by (simp add: main_page_def loadRobotStatus_call_def fetch_def)
  with run_requests [of H "main_page H stored b p" es]
  have "\<forall>r \<in> set (requests (run H (main_page H stored b p) es)).
          url r \<in> {''http://localhost:8000/robot/status'', ''http://localhost:8000/robot/start'',
                   ''http://localhost:8000/robot/return''}"
    by blast
  then have "\<forall>r \<in> set (requests (run H (main_page H stored b p) es)).
      prefix ''http://localhost:8000/'' (url r) \<and> \<not> prefix API_URL (url r)"
    by (auto simp: API_URL_def)
  then show ?thesis
    by (simp add: login_click_def fetch_def API_URL_def)
qed

text \<open>The request of a click on the start button of the example page.\<close>

theorem request_hosts_witness:
  "last (requests (run example_host example_page [StartClicked]))
     \<in> set (requests (run example_host example_page [StartClicked]))
   \<and> url (last (requests (run example_host example_page [StartClicked])))
       = ''http://localhost:8000/robot/start''
   \<and> prefix ''http://localhost:8000/'' (url (last (requests (run example_host example_page [StartClicked]))))
   \<and> \<not> prefix API_URL (url (last (requests (run example_host example_page [StartClicked]))))"
proof -
  let ?s = "run example_host (main_page example_host (Map.empty(''token'' \<mapsto> ''T1'')) [] [])
              [StartClicked]"
  have h: "last (requests ?s) \<in> set (requests ?s)"
    and u: "url (last (requests ?s)) = ''http://localhost:8000/robot/start''"
    by (simp_all add: run_def startPatrol_def fetch_def)
  from request_hosts [of example_host "Map.empty(''token'' \<mapsto> ''T1'')" "[]" "[]" "[StartClicked]"] h u
  show ?thesis
    unfolding example_page_def by blast
qed

subsection \<open>Logout\<close>

text \<open>
  C7. Logout removes the stored token and then makes exactly one navigation, to the
  login view, and calls no server; reading the token afterwards gives the absent value
  \<^verbatim>\<open>null\<close>.
\<close>

theorem logout_clears_and_navigates:
  "localStorage (logout s) ''token'' = None
   \<and> getItem (logout s) ''token'' = JNull
   \<and> navigations (logout s) = navigations s @ [''login.html'']
   \<and> requests (logout s) = requests s"
  by (simp add: logout_def navigate_def removeItem_def getItem_def)


end
